theory Spec2Isabelle
  imports Main "HOL-Library.Word"
begin

section \<open>The tagged element of json.h\<close>

text \<open>
  The enumeration \<^verbatim>\<open>json_element_type\<close>, in its declared order (the build with the
  BSON extensions, which is the default: \<^verbatim>\<open>JSON_ONLY\<close> is not defined).
\<close>

datatype json_element_type =
    JSON_STRING | JSON_NUMBER | JSON_OBJECT | JSON_ARRAY | JSON_TRUE | JSON_FALSE
  | JSON_NULL | JSON_BYTE | JSON_INT32 | JSON_INT64 | JSON_DATE | JSON_UNDEFINED

text \<open>The integer value of an enumerator: \<^verbatim>\<open>a.type < b.type\<close> compares these.\<close>

fun ordinal :: "json_element_type \<Rightarrow> nat" where
  "ordinal JSON_STRING = 0"
| "ordinal JSON_NUMBER = 1"
| "ordinal JSON_OBJECT = 2"
| "ordinal JSON_ARRAY = 3"
| "ordinal JSON_TRUE = 4"
| "ordinal JSON_FALSE = 5"
| "ordinal JSON_NULL = 6"
| "ordinal JSON_BYTE = 7"
| "ordinal JSON_INT32 = 8"
| "ordinal JSON_INT64 = 9"
| "ordinal JSON_DATE = 10"
| "ordinal JSON_UNDEFINED = 11"

text \<open>
  A \<^verbatim>\<open>double\<close> is its IEEE-754 binary64 bit pattern: sign bit 63, exponent bits 62..52,
  fraction bits 51..0.
\<close>

type_synonym double = "64 word"

text \<open>
  \<^verbatim>\<open>struct element\<close>: the tag and the active member of the union.
  \<^item> \<^verbatim>\<open>string\<close> is a size field and a pointer to a NUL-terminated buffer; the buffer is
    the \<open>string\<close> here, read up to its first NUL by every C string function;
  \<^item> \<^verbatim>\<open>object\<close> is a pointer to a map: its address;
  \<^item> \<^verbatim>\<open>array\<close> is a size and a pointer to that many elements: the list of them;
  \<^item> \<^verbatim>\<open>byte\<close> is a size and a pointer to that many bytes: the list of them;
  \<^item> \<^verbatim>\<open>time_t\<close> is a signed 64-bit integer.
\<close>

datatype element =
    E_string nat string
  | E_number double
  | E_object nat
  | E_array "element list"
  | E_true
  | E_false
  | E_null
  | E_byte "8 word list"
  | E_int32 "32 word"
  | E_int64 "64 word"
  | E_date "64 word"
  | E_undefined

fun etype :: "element \<Rightarrow> json_element_type" where
  "etype (E_string n s) = JSON_STRING"
| "etype (E_number d) = JSON_NUMBER"
| "etype (E_object p) = JSON_OBJECT"
| "etype (E_array xs) = JSON_ARRAY"
| "etype E_true = JSON_TRUE"
| "etype E_false = JSON_FALSE"
| "etype E_null = JSON_NULL"
| "etype (E_byte bs) = JSON_BYTE"
| "etype (E_int32 w) = JSON_INT32"
| "etype (E_int64 w) = JSON_INT64"
| "etype (E_date t) = JSON_DATE"
| "etype E_undefined = JSON_UNDEFINED"

section \<open>C strings and IEEE comparison\<close>

definition NUL :: char where
  "NUL = CHR 0x00"

text \<open>The characters a C string function sees: those before the first NUL.\<close>

definition cstr :: "string \<Rightarrow> string" where
  "cstr s = takeWhile (\<lambda>c. c \<noteq> NUL) s"

definition strlen :: "string \<Rightarrow> nat" where
  "strlen s = length (cstr s)"

text \<open>
  \<^verbatim>\<open>strcmp\<close>: the sign of the first difference, the characters compared as
  \<^verbatim>\<open>unsigned char\<close>; the end of a list is the terminating NUL.
\<close>

fun strcmp :: "string \<Rightarrow> string \<Rightarrow> int" where
  "strcmp [] [] = 0"
| "strcmp [] (y # ys) = (if y = NUL then 0 else - 1)"
| "strcmp (x # xs) [] = (if x = NUL then 0 else 1)"
| "strcmp (x # xs) (y # ys) =
     (if x \<noteq> y then (if (of_char x :: nat) < of_char y then - 1 else 1)
      else if x = NUL then 0
      else strcmp xs ys)"

definition isnan :: "double \<Rightarrow> bool" where
  "isnan d = (0x7FF0000000000000 < take_bit 63 d)"

text \<open>
  The value order of the doubles that are not NaN is the order of sign and magnitude:
  both zeros have key 0.
\<close>

definition dkey :: "double \<Rightarrow> int" where
  "dkey d = (if bit d 63 then - uint (take_bit 63 d) else uint (take_bit 63 d))"

definition double_eq :: "double \<Rightarrow> double \<Rightarrow> bool" where
  "double_eq a b = (\<not> isnan a \<and> \<not> isnan b \<and> dkey a = dkey b)"

definition double_lt :: "double \<Rightarrow> double \<Rightarrow> bool" where
  "double_lt a b = (\<not> isnan a \<and> \<not> isnan b \<and> dkey a < dkey b)"

section \<open>Equality and order\<close>

text \<open>\<^verbatim>\<open>operator==(const string&, const string&)\<close> and \<^verbatim>\<open>operator<\<close>.\<close>

definition string_eq :: "nat \<Rightarrow> string \<Rightarrow> nat \<Rightarrow> string \<Rightarrow> bool" where
  "string_eq n s m t = (n = m \<and> 0 = strcmp s t)"

definition string_lt :: "nat \<Rightarrow> string \<Rightarrow> nat \<Rightarrow> string \<Rightarrow> bool" where
  "string_lt n s m t = (strcmp s t < 0)"

text \<open>\<^verbatim>\<open>std::lexicographical_compare\<close> with the comparison \<open>lt\<close>.\<close>

fun lexicographical_compare :: "('a \<Rightarrow> 'a \<Rightarrow> bool) \<Rightarrow> 'a list \<Rightarrow> 'a list \<Rightarrow> bool" where
  "lexicographical_compare lt [] [] = False"
| "lexicographical_compare lt [] (y # ys) = True"
| "lexicographical_compare lt (x # xs) [] = False"
| "lexicographical_compare lt (x # xs) (y # ys) =
     (if lt x y then True
      else if lt y x then False
      else lexicographical_compare lt xs ys)"

text \<open>
  \<^verbatim>\<open>operator==(const byte&, const byte&)\<close>: equal sizes and \<^verbatim>\<open>memcmp\<close> of that many
  bytes; \<^verbatim>\<open>operator<\<close> is \<^verbatim>\<open>std::lexicographical_compare\<close> on \<^verbatim>\<open>uint8_t\<close>.
\<close>

definition byte_eq :: "8 word list \<Rightarrow> 8 word list \<Rightarrow> bool" where
  "byte_eq a b = (length a = length b \<and> take (length a) a = take (length a) b)"

definition byte_lt :: "8 word list \<Rightarrow> 8 word list \<Rightarrow> bool" where
  "byte_lt a b = lexicographical_compare (\<lambda>x y. x < y) a b"

text \<open>
  \<^verbatim>\<open>operator==(const element&, const element&)\<close>, with \<^verbatim>\<open>std::equal\<close> over the
  elements of two arrays (called after the sizes were found equal), and
  \<^verbatim>\<open>operator<(const element&, const element&)\<close>, with
  \<^verbatim>\<open>std::lexicographical_compare\<close> over the elements of two arrays.
\<close>

fun elem_eq :: "element \<Rightarrow> element \<Rightarrow> bool"
  and std_equal :: "element list \<Rightarrow> element list \<Rightarrow> bool" where
  "elem_eq a b =
     (if etype a \<noteq> etype b then False
      else case (a, b) of
        (E_string n s, E_string m t) \<Rightarrow> string_eq n s m t
      | (E_number x, E_number y) \<Rightarrow> double_eq x y
      | (E_object p, E_object q) \<Rightarrow> p = q
      | (E_array xs, E_array ys) \<Rightarrow> length xs = length ys \<and> std_equal xs ys
      | (E_true, E_true) \<Rightarrow> True
      | (E_false, E_false) \<Rightarrow> True
      | (E_null, E_null) \<Rightarrow> False
      | (E_byte x, E_byte y) \<Rightarrow> byte_eq x y
      | (E_int32 x, E_int32 y) \<Rightarrow> x = y
      | (E_int64 x, E_int64 y) \<Rightarrow> x = y
      | (E_date x, E_date y) \<Rightarrow> x = y
      | _ \<Rightarrow> False)"
| "std_equal [] ys = True"
| "std_equal (x # xs) [] = False"
| "std_equal (x # xs) (y # ys) = (elem_eq x y \<and> std_equal xs ys)"

function elem_lt :: "element \<Rightarrow> element \<Rightarrow> bool"
  and array_lt :: "element list \<Rightarrow> element list \<Rightarrow> bool" where
  "elem_lt a b =
     (if ordinal (etype a) < ordinal (etype b) then True
      else if ordinal (etype a) > ordinal (etype b) then False
      else case (a, b) of
        (E_string n s, E_string m t) \<Rightarrow> string_lt n s m t
      | (E_number x, E_number y) \<Rightarrow> double_lt x y
      | (E_object p, E_object q) \<Rightarrow> p < q
      | (E_array xs, E_array ys) \<Rightarrow> array_lt xs ys
      | (E_true, E_true) \<Rightarrow> False
      | (E_false, E_false) \<Rightarrow> etype b = JSON_TRUE
      | (E_null, E_null) \<Rightarrow> False
      | (E_byte x, E_byte y) \<Rightarrow> byte_lt x y
      | (E_int32 x, E_int32 y) \<Rightarrow> sint x < sint y
      | (E_int64 x, E_int64 y) \<Rightarrow> sint x < sint y
      | (E_date x, E_date y) \<Rightarrow> sint x < sint y
      | _ \<Rightarrow> False)"
| "array_lt [] [] = False"
| "array_lt [] (y # ys) = True"
| "array_lt (x # xs) [] = False"
| "array_lt (x # xs) (y # ys) =
     (if elem_lt x y then True
      else if elem_lt y x then False
      else array_lt xs ys)"
  by pat_completeness auto
termination
  by (relation "measure (\<lambda>k. case k of Inl (a, b) \<Rightarrow> size a + size b
                                   | Inr (xs, ys) \<Rightarrow> size_list size xs + size_list size ys)")
     auto

text \<open>
  The overloads that compare an element with a payload:
  \<^verbatim>\<open>operator==(const element&, const string&)\<close> and \<^verbatim>\<open>operator<\<close>.
\<close>

definition elem_eq_string :: "element \<Rightarrow> nat \<Rightarrow> string \<Rightarrow> bool" where
  "elem_eq_string e m t =
     (case e of E_string n s \<Rightarrow> string_eq n s m t | _ \<Rightarrow> False)"

definition elem_lt_string :: "element \<Rightarrow> nat \<Rightarrow> string \<Rightarrow> bool" where
  "elem_lt_string e m t =
     (case e of E_string n s \<Rightarrow> string_lt n s m t | _ \<Rightarrow> False)"

text \<open>\<^verbatim>\<open>value::operator==(const value&)\<close> compares the two values as elements.\<close>

definition value_eq :: "element \<Rightarrow> element \<Rightarrow> bool" where
  "value_eq this v = elem_eq this v"

section \<open>The owning value\<close>

text \<open>
  How an operation of \<^verbatim>\<open>value\<close> or of the parser can end without its result.
  \<^item> \<open>AssertionFailed\<close>: \<^verbatim>\<open>ensure\<close> is \<^verbatim>\<open>assert\<close>, and a false condition aborts.
  \<^item> \<open>BufferOverflow\<close>: \<^verbatim>\<open>strcpy\<close> writes more characters than the buffer has.
  \<^item> \<open>UnsetTagRead\<close>: \<^verbatim>\<open>delete_value\<close> switches on the tag of an object whose tag was never
    set, and releases the buffer that tag stands for. This is undefined behaviour;
    nothing is stated about what follows it.
\<close>

datatype error = AssertionFailed | BufferOverflow | UnsetTagRead

text \<open>One statement after another: the first error ends the function.\<close>

definition and_then :: "error + 'a \<Rightarrow> ('a \<Rightarrow> error + 'b) \<Rightarrow> error + 'b" where
  "and_then r f = (case r of Inl e \<Rightarrow> Inl e | Inr x \<Rightarrow> f x)"

text \<open>
  \<^verbatim>\<open>construct_string(s, size)\<close>: the size field is \<^verbatim>\<open>size\<close>, or \<^verbatim>\<open>strlen(s)\<close> when
  \<^verbatim>\<open>size\<close> is 0; the buffer has that many characters and one more, and \<^verbatim>\<open>strcpy\<close>
  copies the characters before the first NUL, and the NUL, whatever \<^verbatim>\<open>size\<close> is.
\<close>

definition construct_string :: "string \<Rightarrow> nat \<Rightarrow> error + element" where
  "construct_string s n =
     (if n \<noteq> 0 \<and> n < strlen s then Inl BufferOverflow
      else Inr (E_string (if n \<noteq> 0 then n else strlen s) (cstr s)))"

text \<open>\<^verbatim>\<open>construct_array(n)\<close>: \<open>n\<close> elements, each with its tag set to Undefined.\<close>

definition construct_array :: "nat \<Rightarrow> element" where
  "construct_array n = E_array (replicate n E_undefined)"

definition construct_byte :: "nat \<Rightarrow> 8 word list \<Rightarrow> element" where
  "construct_byte n b = E_byte (take n b)"

text \<open>
  The tags for which \<^verbatim>\<open>operator=\<close> rebuilds the value, after \<^verbatim>\<open>delete_value\<close> on the
  object assigned to.
\<close>

definition owns_buffer :: "element \<Rightarrow> bool" where
  "owns_buffer e =
     (etype e = JSON_STRING \<or> etype e = JSON_ARRAY \<or> etype e = JSON_BYTE)"

text \<open>
  \<^verbatim>\<open>value::operator=(const element&)\<close> and \<^verbatim>\<open>value::operator=(const value&)\<close> on an
  object that has a tag, as the value the object holds afterwards: strings, arrays and
  byte blobs are rebuilt (an array by \<^verbatim>\<open>construct_array\<close> and then element by element,
  each by this same assignment), every other tag is copied as it is.
\<close>

fun assign :: "element \<Rightarrow> error + element"
  and assign_elements :: "element list \<Rightarrow> error + element list" where
  "assign (E_string n s) = construct_string s n"
| "assign (E_array a) =
     (case assign_elements a of Inl x \<Rightarrow> Inl x | Inr b \<Rightarrow> Inr (E_array b))"
| "assign (E_byte b) = Inr (construct_byte (length b) b)"
| "assign e = Inr e"
| "assign_elements [] = Inr []"
| "assign_elements (x # xs) =
     (case assign x of
        Inl e \<Rightarrow> Inl e
      | Inr y \<Rightarrow> (case assign_elements xs of Inl e \<Rightarrow> Inl e | Inr ys \<Rightarrow> Inr (y # ys)))"

text \<open>
  The same assignment on an object whose tag was never set: the object that the copy
  constructor \<^verbatim>\<open>value(const value& v) { operator=(v); }\<close> builds, and a slot that
  \<^verbatim>\<open>realloc\<close> added to an array. For a String, an Array or a Byte the assignment starts
  with \<^verbatim>\<open>delete_value\<close>, which reads the tag.
\<close>

definition assign_unset :: "element \<Rightarrow> error + element" where
  "assign_unset e = (if owns_buffer e then Inl UnsetTagRead else Inr e)"

fun assign_unset_elements :: "element list \<Rightarrow> error + element list" where
  "assign_unset_elements [] = Inr []"
| "assign_unset_elements (x # xs) =
     (case assign_unset x of
        Inl e \<Rightarrow> Inl e
      | Inr y \<Rightarrow>
          (case assign_unset_elements xs of Inl e \<Rightarrow> Inl e | Inr ys \<Rightarrow> Inr (y # ys)))"

text \<open>
  \<^verbatim>\<open>explicit value(int n)\<close>: the \<^verbatim>\<open>int\<close> is converted to \<^verbatim>\<open>size_t\<close> (64 bits) for
  \<^verbatim>\<open>construct_array\<close>.
\<close>

definition value_int :: "32 word \<Rightarrow> element" where
  "value_int n = construct_array (unat (scast n :: 64 word))"

text \<open>\<^verbatim>\<open>operator bool\<close>.\<close>

definition to_bool :: "element \<Rightarrow> bool" where
  "to_bool v = (etype v \<noteq> JSON_UNDEFINED)"

text \<open>
  \<^verbatim>\<open>data.array.size\<close> and \<^verbatim>\<open>operator[](i)\<close>. The source checks neither the tag nor the
  index; \<open>None\<close> stands for a read outside an array.
\<close>

definition array_size :: "element \<Rightarrow> nat option" where
  "array_size v = (case v of E_array xs \<Rightarrow> Some (length xs) | _ \<Rightarrow> None)"

definition index :: "element \<Rightarrow> nat \<Rightarrow> element option" where
  "index v i =
     (case v of E_array xs \<Rightarrow> (if i < length xs then Some (xs ! i) else None)
      | _ \<Rightarrow> None)"

text \<open>The array after \<^verbatim>\<open>operator[](i)\<close> has been assigned \<open>x\<close>.\<close>

definition store :: "element \<Rightarrow> nat \<Rightarrow> element \<Rightarrow> element" where
  "store v i x = (case v of E_array xs \<Rightarrow> E_array (xs[i := x]) | w \<Rightarrow> w)"

text \<open>
  \<^verbatim>\<open>push_back_array(const json::element&)\<close>.
  \<^item> An Undefined value becomes \<^verbatim>\<open>construct_array(1)\<close>, and its element 0 is assigned the
    element.
  \<^item> A value that is not an array is copied by the copy constructor
    (\<^verbatim>\<open>value this_(*this)\<close>), becomes \<^verbatim>\<open>construct_array(2)\<close>, and its elements 0 and 1 are
    assigned the copy and the element.
  \<^item> An array is reallocated with one more slot, and the element is assigned to that
    slot, whose tag nothing has set.
  The element is passed by reference and is a value here: it is not the object appended
  to, nor a part of it (the source would read such an element after the object was
  released or reallocated).
\<close>

definition push_back_array :: "element \<Rightarrow> element \<Rightarrow> error + element" where
  "push_back_array this e =
     (if etype this = JSON_UNDEFINED then
        and_then (assign e) (\<lambda>x0. Inr (store (construct_array 1) 0 x0))
      else if etype this \<noteq> JSON_ARRAY then
        and_then (assign_unset this) (\<lambda>this_copy.
        and_then (assign this_copy) (\<lambda>x0.
        and_then (assign e) (\<lambda>x1.
        Inr (store (store (construct_array 2) 0 x0) 1 x1))))
      else
        and_then (assign_unset e) (\<lambda>x.
        Inr (case this of E_array xs \<Rightarrow> E_array (xs @ [x]) | w \<Rightarrow> w)))"

text \<open>
  \<^verbatim>\<open>push_back_array(const array&)\<close>. An Undefined value is assigned the array; a value
  that is not an array first becomes the one-element array of its copy; then the
  buffer is reallocated with as many more slots as the appended array has elements, and
  these are assigned to the new slots in order.
\<close>

definition push_back_array_a :: "element \<Rightarrow> element list \<Rightarrow> error + element" where
  "push_back_array_a this a =
     (if etype this = JSON_UNDEFINED then assign (E_array a)
      else
        and_then
          (if etype this \<noteq> JSON_ARRAY then
             and_then (assign_unset this) (\<lambda>this_copy.
             and_then (assign this_copy) (\<lambda>x0.
             Inr (store (construct_array 1) 0 x0)))
           else Inr this) (\<lambda>this1.
        and_then (assign_unset_elements a) (\<lambda>b.
        Inr (case this1 of E_array xs \<Rightarrow> E_array (xs @ b) | w \<Rightarrow> w))))"

text \<open>The two overloads of \<^verbatim>\<open>push_back\<close> return the object after \<^verbatim>\<open>push_back_array\<close>.\<close>

definition push_back :: "element \<Rightarrow> element \<Rightarrow> error + element" where
  "push_back this e = push_back_array this e"

definition push_back_a :: "element \<Rightarrow> element list \<Rightarrow> error + element" where
  "push_back_a this a = push_back_array_a this a"

section \<open>Predicates of the statements\<close>

text \<open>
  An element that is equal to itself: it holds no Null, no Undefined and no NaN, at any
  depth.
\<close>

fun self_equal :: "element \<Rightarrow> bool" where
  "self_equal (E_number d) = (\<not> isnan d)"
| "self_equal (E_array xs) = list_all self_equal xs"
| "self_equal E_null = False"
| "self_equal E_undefined = False"
| "self_equal e = True"

text \<open>The size field of every string is the length of its characters.\<close>

fun sized_strings :: "element \<Rightarrow> bool" where
  "sized_strings (E_string n s) = (n = strlen s)"
| "sized_strings (E_array xs) = list_all sized_strings xs"
| "sized_strings e = True"

text \<open>
  The state in which \<^verbatim>\<open>construct_string\<close> leaves a string without writing past its
  buffer: the buffer holds the characters up to the NUL, and the size field is not
  below their number.
\<close>

fun is_value :: "element \<Rightarrow> bool" where
  "is_value (E_string n s) = (cstr s = s \<and> length s \<le> n)"
| "is_value (E_array xs) = list_all is_value xs"
| "is_value e = True"

definition exactly_one :: "bool \<Rightarrow> bool \<Rightarrow> bool \<Rightarrow> bool" where
  "exactly_one x y z =
     ((x \<and> \<not> y \<and> \<not> z) \<or> (\<not> x \<and> y \<and> \<not> z) \<or> (\<not> x \<and> \<not> y \<and> z))"

text \<open>The element at index \<open>i\<close> of \<open>r\<close> is equal to \<open>v\<close> by \<^verbatim>\<open>operator==\<close>.\<close>

definition index_eq :: "element \<Rightarrow> nat \<Rightarrow> element \<Rightarrow> bool" where
  "index_eq r i v = (case index r i of Some x \<Rightarrow> elem_eq x v | None \<Rightarrow> False)"

section \<open>The input stream and the environment\<close>

text \<open>
  A \<^verbatim>\<open>std::istream\<close>: the characters not yet read, and the fail bit. Once the fail bit is
  set every extraction fails.
\<close>

record istream =
  buf :: string
  failbit :: bool

definition istream_of :: "string \<Rightarrow> istream" where
  "istream_of s = \<lparr>buf = s, failbit = False\<rparr>"

text \<open>
  What json.h leaves to its environment.
  \<^item> The conversions of the C++ stream library between text and \<^verbatim>\<open>double\<close>, and its output
    of a pointer. \<open>get_double\<close> is given the unread characters (after white space) and
    returns the number and the characters left, or \<open>None\<close> when the extraction fails.
  \<^item> The byte that a \<^verbatim>\<open>char\<close> local holds before anything is stored in it: \<open>value_c\<close> for
    the \<^verbatim>\<open>c\<close> of \<^verbatim>\<open>read_value\<close>, \<open>string_c\<close> for that of \<^verbatim>\<open>read_string\<close>, \<open>pair_c\<close> for that of
    \<^verbatim>\<open>read_pair\<close>, and \<open>eat_c\<close> for the \<^verbatim>\<open>c_\<close> of \<^verbatim>\<open>eat\<close> at the first of its calls in a row.
\<close>

record environment =
  get_double :: "string \<Rightarrow> (double \<times> string) option"
  put_double :: "double \<Rightarrow> string"
  put_pointer :: "nat \<Rightarrow> string"
  value_c :: char
  string_c :: char
  pair_c :: char
  eat_c :: char

text \<open>\<^verbatim>\<open>isspace\<close> in the C locale: space, \<^verbatim>\<open>\t \n \v \f \r\<close>.\<close>

definition isspace :: "char \<Rightarrow> bool" where
  "isspace c = (c \<in> set [CHR 0x20, CHR 0x09, CHR 0x0A, CHR 0x0B, CHR 0x0C, CHR 0x0D])"

text \<open>
  \<^verbatim>\<open>is >> std::skipws >> c\<close>, given what \<open>c\<close> holds before: white space is skipped and the
  next character is stored in \<open>c\<close>; at the end of the input, or when the stream has
  failed, the fail bit is set and \<open>c\<close> is left as it was.
\<close>

definition extract_char :: "char \<Rightarrow> istream \<Rightarrow> char \<times> istream" where
  "extract_char c ins =
     (if failbit ins then (c, ins)
      else case dropWhile isspace (buf ins) of
        [] \<Rightarrow> (c, \<lparr>buf = [], failbit = True\<rparr>)
      | x # xs \<Rightarrow> (x, \<lparr>buf = xs, failbit = False\<rparr>))"

text \<open>\<^verbatim>\<open>is.putback(c)\<close>: no effect on a stream that has failed.\<close>

definition putback :: "char \<Rightarrow> istream \<Rightarrow> istream" where
  "putback c ins = (if failbit ins then ins else ins\<lparr>buf := c # buf ins\<rparr>)"

text \<open>\<^verbatim>\<open>is >> v.data.number\<close>.\<close>

definition extract_double :: "environment \<Rightarrow> istream \<Rightarrow> double option \<times> istream" where
  "extract_double lib ins =
     (if failbit ins then (None, ins)
      else case get_double lib (dropWhile isspace (buf ins)) of
        None \<Rightarrow> (None, ins\<lparr>failbit := True\<rparr>)
      | Some (d, rest) \<Rightarrow> (Some d, \<lparr>buf = rest, failbit = False\<rparr>))"

section \<open>The parser\<close>

text \<open>
  \<^verbatim>\<open>eat(char c, std::istream& is)\<close>, given what its local \<^verbatim>\<open>c_\<close> holds before the
  extraction: the result \<^verbatim>\<open>c == c_\<close>, what \<^verbatim>\<open>c_\<close> holds afterwards, and the stream. The
  local has no initialiser: in calls that follow one another from one function it has
  the place on the stack it had in the call before, and holds what that call left.
\<close>

definition eat :: "char \<Rightarrow> char \<Rightarrow> istream \<Rightarrow> bool \<times> char \<times> istream" where
  "eat c c_before ins =
     (case extract_char c_before ins of (c_after, ins') \<Rightarrow> (c = c_after, c_after, ins'))"

text \<open>\<^verbatim>\<open>ensure (eat(c, is))\<close>.\<close>

definition ensure_eat :: "char \<Rightarrow> char \<times> istream \<Rightarrow> error + char \<times> istream" where
  "ensure_eat c st =
     (case eat c (fst st) (snd st) of
        (b, c_after, ins') \<Rightarrow> if b then Inr (c_after, ins') else Inl AssertionFailed)"

text \<open>
  \<^verbatim>\<open>read_string\<close>: \<^verbatim>\<open>for (is >> c; c != '\"' && c != '\''; is >> c) s += c;\<close>. The loop is
  entered with what \<open>c\<close> holds after the first extraction. An extraction that fails
  leaves \<open>c\<close> as it was, so at the end of the input the loop appends the last character
  for ever: the result \<open>None\<close>.
\<close>

partial_function (option) read_string_loop ::
  "char \<Rightarrow> string \<Rightarrow> istream \<Rightarrow> (string \<times> istream) option" where
  "read_string_loop c s ins =
     (if c \<noteq> CHR 0x22 \<and> c \<noteq> CHR 0x27 then
        (case extract_char c ins of (c', ins') \<Rightarrow> read_string_loop c' (s @ [c]) ins')
      else Some (s, ins))"

definition read_string :: "environment \<Rightarrow> istream \<Rightarrow> (string \<times> istream) option" where
  "read_string lib ins =
     (case extract_char (string_c lib) ins of (c, ins') \<Rightarrow> read_string_loop c [] ins')"

text \<open>
  \<^verbatim>\<open>read_value\<close> and \<^verbatim>\<open>read_array\<close> call each other; they are one function of the call
  made. \<open>Read_array v ins\<close> is the loop of \<^verbatim>\<open>read_array\<close> with its local \<open>v\<close>:
  \<^verbatim>\<open>while (json::value a = read_value(is)) v.push_back(a);\<close>. In \<^verbatim>\<open>read_value\<close>, after a
  comma the next character is extracted into the same \<open>c\<close>. The value a function
  returns is constructed in place in its caller (the compilers elide these copies);
  \<^verbatim>\<open>v = read_array(is)\<close> and \<^verbatim>\<open>v = read_string(is).c_str()\<close> assign to the \<open>v\<close> that was
  constructed Undefined.
\<close>

datatype parse_call = Read_value istream | Read_array element istream

partial_function (option) parse ::
  "environment \<Rightarrow> parse_call \<Rightarrow> (error + element \<times> istream) option" where
  "parse lib k =
     (case k of
        Read_array v ins \<Rightarrow>
          Option.bind (parse lib (Read_value ins)) (\<lambda>r.
            case r of
              Inl e \<Rightarrow> Some (Inl e)
            | Inr (a, ins') \<Rightarrow>
                if to_bool a then
                  (case push_back v a of
                     Inl e \<Rightarrow> Some (Inl e)
                   | Inr v' \<Rightarrow> parse lib (Read_array v' ins'))
                else Some (Inr (v, ins')))
      | Read_value ins \<Rightarrow>
          (case extract_char (value_c lib) ins of
             (c0, ins1) \<Rightarrow>
               if c0 = CHR '']'' \<or> c0 = CHR ''}'' then Some (Inr (E_undefined, ins1))
               else
                 (case (if c0 = CHR '','' then extract_char c0 ins1 else (c0, ins1)) of
                    (c, ins2) \<Rightarrow>
                      if c = CHR ''['' then
                        Option.bind (parse lib (Read_array E_undefined ins2)) (\<lambda>r.
                          case r of
                            Inl e \<Rightarrow> Some (Inl e)
                          | Inr (a, ins') \<Rightarrow>
                              Some (and_then (assign a) (\<lambda>v. Inr (v, ins'))))
                      else if c = CHR 0x22 \<or> c = CHR 0x27 then
                        (case read_string lib ins2 of
                           None \<Rightarrow> None
                         | Some (s, ins') \<Rightarrow>
                             Some (and_then (construct_string s 0) (\<lambda>v. Inr (v, ins'))))
                      else if c = CHR ''f'' then
                        Some (and_then (ensure_eat CHR ''a'' (eat_c lib, ins2)) (\<lambda>st3.
                              and_then (ensure_eat CHR ''l'' st3) (\<lambda>st4.
                              and_then (ensure_eat CHR ''s'' st4) (\<lambda>st5.
                              and_then (ensure_eat CHR ''e'' st5) (\<lambda>st6.
                              Inr (E_false, snd st6))))))
                      else if c = CHR ''t'' then
                        Some (and_then (ensure_eat CHR ''r'' (eat_c lib, ins2)) (\<lambda>st3.
                              and_then (ensure_eat CHR ''u'' st3) (\<lambda>st4.
                              and_then (ensure_eat CHR ''e'' st4) (\<lambda>st5.
                              Inr (E_true, snd st5)))))
                      else if c = CHR ''n'' then
                        Some (and_then (ensure_eat CHR ''u'' (eat_c lib, ins2)) (\<lambda>st3.
                              and_then (ensure_eat CHR ''l'' st3) (\<lambda>st4.
                              and_then (ensure_eat CHR ''l'' st4) (\<lambda>st5.
                              Inr (E_null, snd st5)))))
                      else
                        (case extract_double lib (putback c ins2) of
                           (None, ins') \<Rightarrow> Some (Inl AssertionFailed)
                         | (Some d, ins') \<Rightarrow> Some (Inr (E_number d, ins'))))))"

definition read_value ::
  "environment \<Rightarrow> istream \<Rightarrow> (error + element \<times> istream) option" where
  "read_value lib ins = parse lib (Read_value ins)"

definition read_array_loop ::
  "environment \<Rightarrow> element \<Rightarrow> istream \<Rightarrow> (error + element \<times> istream) option" where
  "read_array_loop lib v ins = parse lib (Read_array v ins)"

definition read_array ::
  "environment \<Rightarrow> istream \<Rightarrow> (error + element \<times> istream) option" where
  "read_array lib ins = read_array_loop lib E_undefined ins"

text \<open>
  \<^verbatim>\<open>operator>>(std::istream&, json::value&)\<close>: \<^verbatim>\<open>v = json::parse::read_value(is)\<close>, for a
  \<open>v\<close> that a constructor has built.
\<close>

definition extract_value ::
  "environment \<Rightarrow> istream \<Rightarrow> (error + element \<times> istream) option" where
  "extract_value lib ins =
     (case read_value lib ins of
        None \<Rightarrow> None
      | Some (Inl e) \<Rightarrow> Some (Inl e)
      | Some (Inr (v, ins')) \<Rightarrow> Some (and_then (assign v) (\<lambda>w. Inr (w, ins'))))"

text \<open>
  \<^verbatim>\<open>json::object\<close> is a \<^verbatim>\<open>std::map\<close> from keys to values; \<^verbatim>\<open>o.insert(kv)\<close> does nothing when
  the key is there already, and otherwise copies the pair into a new node, the value by
  its copy constructor.
\<close>

type_synonym object = "string \<rightharpoonup> element"

definition map_insert :: "object \<Rightarrow> string \<times> element \<Rightarrow> error + object" where
  "map_insert obj kv =
     (case obj (fst kv) of
        None \<Rightarrow> and_then (assign_unset (snd kv)) (\<lambda>v. Inr (obj(fst kv \<mapsto> v)))
      | Some v \<Rightarrow> Inr obj)"

text \<open>\<^verbatim>\<open>read_key\<close>: the string, then \<^verbatim>\<open>ensure (parse::eat(':', is))\<close>.\<close>

definition read_key :: "environment \<Rightarrow> istream \<Rightarrow> (error + string \<times> istream) option" where
  "read_key lib ins =
     (case read_string lib ins of
        None \<Rightarrow> None
      | Some (key, ins') \<Rightarrow>
          Some (and_then (ensure_eat CHR '':'' (eat_c lib, ins')) (\<lambda>st. Inr (key, snd st))))"

text \<open>
  \<^verbatim>\<open>read_pair(is, kv)\<close>: the result, the pair \<open>kv\<close> as it is on return, and the stream. The
  character read first is the closing brace, or must be a quote.
\<close>

definition read_pair ::
  "environment \<Rightarrow> istream \<Rightarrow> string \<times> element \<Rightarrow>
     (error + bool \<times> (string \<times> element) \<times> istream) option" where
  "read_pair lib ins kv =
     (case extract_char (pair_c lib) ins of
        (c, ins1) \<Rightarrow>
          if c = CHR ''}'' then Some (Inr (False, kv, ins1))
          else if \<not> (c = CHR 0x22 \<or> c = CHR 0x27) then Some (Inl AssertionFailed)
          else
            (case read_key lib ins1 of
               None \<Rightarrow> None
             | Some (Inl e) \<Rightarrow> Some (Inl e)
             | Some (Inr (key, ins2)) \<Rightarrow>
                 (case read_value lib ins2 of
                    None \<Rightarrow> None
                  | Some (Inl e) \<Rightarrow> Some (Inl e)
                  | Some (Inr (v, ins3)) \<Rightarrow>
                      Some (and_then (assign v) (\<lambda>w. Inr (True, (key, w), ins3))))))"

text \<open>\<^verbatim>\<open>read_members\<close>: \<^verbatim>\<open>while (read_pair(is, kv)) o.insert(kv);\<close>.\<close>

partial_function (option) read_members_loop ::
  "environment \<Rightarrow> object \<Rightarrow> string \<times> element \<Rightarrow> istream \<Rightarrow>
     (error + object \<times> istream) option"
  where
  "read_members_loop lib obj kv ins =
     (case read_pair lib ins kv of
        None \<Rightarrow> None
      | Some (Inl e) \<Rightarrow> Some (Inl e)
      | Some (Inr (found, kv', ins')) \<Rightarrow>
          if found then
            (case map_insert obj kv' of
               Inl e \<Rightarrow> Some (Inl e)
             | Inr obj' \<Rightarrow> read_members_loop lib obj' kv' ins')
          else Some (Inr (obj, ins')))"

definition read_members ::
  "environment \<Rightarrow> istream \<Rightarrow> (error + object \<times> istream) option" where
  "read_members lib ins = read_members_loop lib Map.empty ([], E_undefined) ins"

text \<open>
  \<^verbatim>\<open>read_object\<close>, which \<^verbatim>\<open>operator>>(std::istream&, json::object&)\<close> calls.
\<close>

definition read_object ::
  "environment \<Rightarrow> istream \<Rightarrow> (error + object \<times> istream) option" where
  "read_object lib ins =
     (case ensure_eat CHR ''{'' (eat_c lib, ins) of
        Inl e \<Rightarrow> Some (Inl e)
      | Inr st \<Rightarrow> read_members lib (snd st))"

section \<open>The serializer\<close>

text \<open>The decimal digits of a number, as the stream prints an integer.\<close>

function decimal :: "nat \<Rightarrow> string" where
  "decimal n =
     (if n < 10 then [''0123456789'' ! n]
      else decimal (n div 10) @ [''0123456789'' ! (n mod 10)])"
  by pat_completeness auto
termination
  by (relation "measure id") auto

definition put_int :: "int \<Rightarrow> string" where
  "put_int i = (if i < 0 then CHR ''-'' # decimal (nat (- i)) else decimal (nat i))"

text \<open>
  \<^verbatim>\<open>operator<<(std::ostream&, const json::value&)\<close>, as the text written. The elements
  of an array are written with a comma before each but the first (\<^verbatim>\<open>if (i) os << ','\<close>).
\<close>

fun serialize :: "environment \<Rightarrow> element \<Rightarrow> string"
  and serialize_elements :: "environment \<Rightarrow> nat \<Rightarrow> element list \<Rightarrow> string" where
  "serialize lib (E_string n s) = CHR 0x22 # cstr s @ [CHR 0x22]"
| "serialize lib (E_number d) = put_double lib d"
| "serialize lib (E_object p) = CHR ''('' # put_pointer lib p @ '')''"
| "serialize lib (E_array xs) = CHR ''['' # serialize_elements lib 0 xs @ '']''"
| "serialize lib E_true = ''true''"
| "serialize lib E_false = ''false''"
| "serialize lib E_null = ''null''"
| "serialize lib (E_byte bs) = map (\<lambda>b. char_of (unat b)) bs"
| "serialize lib (E_int32 w) = put_int (sint w)"
| "serialize lib (E_int64 w) = put_int (sint w)"
| "serialize lib (E_date t) = put_int (sint t)"
| "serialize lib E_undefined = ''*undefined*''"
| "serialize_elements lib i [] = []"
| "serialize_elements lib i (x # xs) =
     (if i \<noteq> 0 then '','' else []) @ serialize lib x @ serialize_elements lib (Suc i) xs"

section \<open>An instance of the environment\<close>

text \<open>
  An environment for the concrete inputs below. Its conversion agrees with the C++
  stream library (default flags, C locale) on the numbers used there: it reads a run of
  decimal digits that is not the start of a longer floating literal and is below
  \<open>2 ^ 53\<close>, where the conversion to \<^verbatim>\<open>double\<close> is exact, and it prints the doubles that
  are integers below \<open>10 ^ 6\<close>, which six significant digits print exactly. It is not
  the library elsewhere: there it reads nothing (\<open>None\<close>) and prints \<open>?\<close>. A pointer is
  printed in hexadecimal with its base. The uninitialised locals hold the byte 0.
\<close>

definition isdigit :: "char \<Rightarrow> bool" where
  "isdigit c = (c \<in> set ''0123456789'')"

definition digits_value :: "string \<Rightarrow> nat" where
  "digits_value ds = foldl (\<lambda>n c. 10 * n + (of_char c - 48)) 0 ds"

function bit_length :: "nat \<Rightarrow> nat" where
  "bit_length n = (if n = 0 then 0 else Suc (bit_length (n div 2)))"
  by pat_completeness auto
termination
  by (relation "measure id") auto

definition double_of_nat :: "nat \<Rightarrow> double" where
  "double_of_nat n =
     (if n = 0 then 0
      else let e = bit_length n - 1
           in word_of_nat ((1023 + e) * 2 ^ 52 + (n * 2 ^ (52 - e)) mod 2 ^ 52))"

definition nat_of_double :: "double \<Rightarrow> nat option" where
  "nat_of_double d =
     (if d = 0 then Some 0
      else let e = unat (drop_bit 52 d); m = 2 ^ 52 + unat (take_bit 52 d)
           in if 1023 \<le> e \<and> e \<le> 1075 \<and> m mod 2 ^ (1075 - e) = 0
              then Some (m div 2 ^ (1075 - e)) else None)"

definition decimal_get_double :: "string \<Rightarrow> (double \<times> string) option" where
  "decimal_get_double s =
     (let ds = takeWhile isdigit s; rest = dropWhile isdigit s
      in if ds = [] \<or> 2 ^ 53 \<le> digits_value ds
            \<or> (case rest of [] \<Rightarrow> False | c # cs \<Rightarrow> c \<in> set ''.eExXpP'') then None
         else Some (double_of_nat (digits_value ds), rest))"

definition decimal_put_double :: "double \<Rightarrow> string" where
  "decimal_put_double d =
     (case nat_of_double d of
        Some n \<Rightarrow> if n < 10 ^ 6 then decimal n else ''?''
      | None \<Rightarrow> ''?'')"

function hexadecimal :: "nat \<Rightarrow> string" where
  "hexadecimal n =
     (if n < 16 then [''0123456789abcdef'' ! n]
      else hexadecimal (n div 16) @ [''0123456789abcdef'' ! (n mod 16)])"
  by pat_completeness auto
termination
  by (relation "measure id") auto

definition decimal_lib :: environment where
  "decimal_lib =
     \<lparr>get_double = decimal_get_double, put_double = decimal_put_double,
      put_pointer = (\<lambda>p. if p = 0 then ''0'' else ''0x'' @ hexadecimal p),
      value_c = CHR 0x00, string_c = CHR 0x00, pair_c = CHR 0x00, eat_c = CHR 0x00\<rparr>"

section \<open>Predicates of the round trip\<close>

text \<open>What may follow the text of a value: nothing, a comma or a closing bracket.\<close>

definition stop_ok :: "string \<Rightarrow> bool" where
  "stop_ok rest = (case rest of [] \<Rightarrow> True | c # cs \<Rightarrow> c = CHR '','' \<or> c = CHR '']'')"

text \<open>A character that \<^verbatim>\<open>read_string\<close> reads back: no quote, no white space, no NUL.\<close>

definition plain_char :: "char \<Rightarrow> bool" where
  "plain_char c = (c \<noteq> CHR 0x22 \<and> c \<noteq> CHR 0x27 \<and> \<not> isspace c \<and> c \<noteq> NUL)"

text \<open>A character with which \<^verbatim>\<open>read_value\<close> goes to the extraction of a number.\<close>

definition number_start :: "char \<Rightarrow> bool" where
  "number_start c = (\<not> isspace c \<and> c \<notin> set ('']},['' @ [CHR 0x22, CHR 0x27] @ ''ftn''))"

text \<open>
  A number that the stream library prints and reads back: its text starts a number for
  the parser, and the library reads the same \<^verbatim>\<open>double\<close> from it and stops at its end.
\<close>

definition number_round_trips :: "environment \<Rightarrow> double \<Rightarrow> bool" where
  "number_round_trips lib d =
     (case put_double lib d of
        [] \<Rightarrow> False
      | c # cs \<Rightarrow> number_start c
          \<and> (\<forall>rest. stop_ok rest \<longrightarrow> get_double lib (c # cs @ rest) = Some (d, rest)))"

fun round_trips :: "environment \<Rightarrow> element \<Rightarrow> bool" where
  "round_trips lib (E_string n s) = (n = length s \<and> list_all plain_char s)"
| "round_trips lib (E_number d) = number_round_trips lib d"
| "round_trips lib (E_array xs) =
     (xs \<noteq> [] \<and> list_all (round_trips lib) xs \<and> list_all (\<lambda>x. \<not> owns_buffer x) (tl xs))"
| "round_trips lib E_true = True"
| "round_trips lib E_false = True"
| "round_trips lib E_null = True"
| "round_trips lib e = False"

section \<open>Further predicates and the texts of the statements\<close>

text \<open>
  A character that can start the text of a value: with it \<^verbatim>\<open>read_value\<close> neither returns
  at once nor skips a comma.
\<close>

definition value_start :: "char \<Rightarrow> bool" where
  "value_start c = (\<not> isspace c \<and> c \<noteq> CHR '']'' \<and> c \<noteq> CHR ''}'' \<and> c \<noteq> CHR '','')"

text \<open>
  The round trip of the specification: the text written for \<open>v\<close> is parsed to a value,
  and that value is equal to \<open>v\<close> by \<^verbatim>\<open>operator==\<close>.
\<close>

definition parses_equal :: "environment \<Rightarrow> element \<Rightarrow> bool" where
  "parses_equal lib v =
     (case extract_value lib (istream_of (serialize lib v)) of
        Some (Inr (v', ins')) \<Rightarrow> elem_eq v' v
      | _ \<Rightarrow> False)"

text \<open>The array \<^verbatim>\<open>[["ab",true],1,false]\<close>; 1.0 is \<^verbatim>\<open>0x3FF0000000000000\<close>.\<close>

definition sample_value :: element where
  "sample_value =
     E_array [E_array [E_string 2 ''ab'', E_true], E_number 0x3FF0000000000000, E_false]"

text \<open>
  The text \<^verbatim>\<open>{"a":1,"b":[true,false]}\<close>, what is left of it after the \<^verbatim>\<open>1\<close>, and an
  object written without a comma between its members, \<^verbatim>\<open>{"a":1"b":true}\<close>.
\<close>

definition object_text_rest :: string where
  "object_text_rest = '','' @ [CHR 0x22] @ ''b'' @ [CHR 0x22] @ '':[true,false]}''"

definition object_text :: string where
  "object_text = ''{'' @ [CHR 0x22] @ ''a'' @ [CHR 0x22] @ '':1'' @ object_text_rest"

definition juxtaposed_text :: string where
  "juxtaposed_text =
     ''{'' @ [CHR 0x22] @ ''a'' @ [CHR 0x22] @ '':1'' @ [CHR 0x22] @ ''b'' @ [CHR 0x22]
       @ '':true}''"

text \<open>The text \<^verbatim>\<open>["a","b"]\<close>.\<close>

definition two_strings_text :: string where
  "two_strings_text =
     ''['' @ [CHR 0x22] @ ''a'' @ [CHR 0x22] @ '','' @ [CHR 0x22] @ ''b'' @ [CHR 0x22] @ '']''"

section \<open>Facts about the comparisons\<close>

declare elem_eq.simps(1) [simp del] elem_lt.simps(1) [simp del]

lemma of_char_NUL: "(of_char NUL :: nat) = 0"
  by (simp add: NUL_def)

lemma of_char_zero: "((of_char y :: nat) = 0) = (y = NUL)"
  using of_char_eq_iff [of y NUL, where ?'a = nat] by (simp add: NUL_def)

lemma strcmp_zero: "strcmp s t = 0 \<longleftrightarrow> cstr s = cstr t"
  by (induction s t rule: strcmp.induct) (auto simp: cstr_def)

lemma strcmp_swap: "strcmp t s = - strcmp s t"
  by (induction s t rule: strcmp.induct) (auto simp: of_char_zero)

lemma ordinal_inj: "ordinal s = ordinal t \<longleftrightarrow> s = t"
  by (cases s; cases t) simp_all

lemma elem_eq_diff_type: "etype a \<noteq> etype b \<Longrightarrow> elem_eq a b = False"
  by (simp add: elem_eq.simps(1))

lemma elem_lt_diff_type:
  "etype a \<noteq> etype b \<Longrightarrow> elem_lt a b = (ordinal (etype a) < ordinal (etype b))"
  using ordinal_inj [of "etype a" "etype b"] by (auto simp: elem_lt.simps(1))

lemma elem_eq_same:
  "elem_eq (E_string n s) (E_string m t) = string_eq n s m t"
  "elem_eq (E_number x) (E_number y) = double_eq x y"
  "elem_eq (E_object p) (E_object q) = (p = q)"
  "elem_eq (E_array xs) (E_array ys) = (length xs = length ys \<and> std_equal xs ys)"
  "elem_eq E_true E_true = True"
  "elem_eq E_false E_false = True"
  "elem_eq E_null E_null = False"
  "elem_eq (E_byte bx) (E_byte by) = byte_eq bx by"
  "elem_eq (E_int32 i) (E_int32 j) = (i = j)"
  "elem_eq (E_int64 k) (E_int64 l) = (k = l)"
  "elem_eq (E_date d) (E_date e) = (d = e)"
  "elem_eq E_undefined E_undefined = False"
  by (simp_all add: elem_eq.simps(1))

lemma elem_lt_same:
  "elem_lt (E_string n s) (E_string m t) = string_lt n s m t"
  "elem_lt (E_number x) (E_number y) = double_lt x y"
  "elem_lt (E_object p) (E_object q) = (p < q)"
  "elem_lt (E_array xs) (E_array ys) = array_lt xs ys"
  "elem_lt E_true E_true = False"
  "elem_lt E_false E_false = False"
  "elem_lt E_null E_null = False"
  "elem_lt (E_byte bx) (E_byte by) = byte_lt bx by"
  "elem_lt (E_int32 i) (E_int32 j) = (sint i < sint j)"
  "elem_lt (E_int64 k) (E_int64 l) = (sint k < sint l)"
  "elem_lt (E_date d) (E_date e) = (sint d < sint e)"
  "elem_lt E_undefined E_undefined = False"
  by (simp_all add: elem_lt.simps(1))

lemma array_lt_lexicographical: "array_lt xs ys = lexicographical_compare elem_lt xs ys"
proof (induction xs arbitrary: ys)
  case Nil
  then show ?case by (cases ys) simp_all
next
  case (Cons x xs)
  then show ?case by (cases ys) simp_all
qed

lemma byte_tri: "exactly_one (byte_lt a b) (byte_lt b a) (byte_eq a b)"
  unfolding byte_lt_def byte_eq_def
  by (induction "(\<lambda>x y. x < y) :: 8 word \<Rightarrow> 8 word \<Rightarrow> bool" a b rule: lexicographical_compare.induct)
    (auto simp: exactly_one_def)

lemma string_tri:
  "n = strlen s \<Longrightarrow> m = strlen t \<Longrightarrow>
   exactly_one (string_lt n s m t) (string_lt m t n s) (string_eq n s m t)"
  using strcmp_swap [of t s] strcmp_zero [of s t]
  by (auto simp: exactly_one_def string_lt_def string_eq_def strlen_def)

lemma double_tri:
  "\<not> isnan x \<Longrightarrow> \<not> isnan y \<Longrightarrow> exactly_one (double_lt x y) (double_lt y x) (double_eq x y)"
  by (auto simp: exactly_one_def double_lt_def double_eq_def)

lemma sint_tri: "exactly_one (sint x < sint y) (sint y < sint x) (x = y)"
proof -
  have "(sint x = sint y) = (x = y)"
    using signed_word_eqI [of x y, where ?'a = int] by auto
  then show ?thesis
    unfolding exactly_one_def by linarith
qed

lemma nat_tri: "exactly_one (p < q) (q < p) (p = q)" for p q :: nat
  by (auto simp: exactly_one_def)

lemma array_tri:
  assumes "\<And>x y. x \<in> set xs \<Longrightarrow> y \<in> set ys \<Longrightarrow> exactly_one (elem_lt x y) (elem_lt y x) (elem_eq x y)"
  shows "exactly_one (array_lt xs ys) (array_lt ys xs) (length xs = length ys \<and> std_equal xs ys)"
  using assms
proof (induction xs arbitrary: ys)
  case Nil
  then show ?case by (cases ys) (simp_all add: exactly_one_def)
next
  case (Cons x xs)
  show ?case
  proof (cases ys)
    case Nil
    then show ?thesis by (simp add: exactly_one_def)
  next
    case (Cons y ys')
    have h: "exactly_one (elem_lt x y) (elem_lt y x) (elem_eq x y)"
      using Cons.prems Cons by simp
    have t: "exactly_one (array_lt xs ys') (array_lt ys' xs) (length xs = length ys' \<and> std_equal xs ys')"
      using Cons.IH [of ys'] Cons.prems Cons by simp
    from h t show ?thesis unfolding Cons exactly_one_def by auto
  qed
qed

lemma elem_tri:
  "self_equal a \<Longrightarrow> sized_strings a \<Longrightarrow> self_equal b \<Longrightarrow> sized_strings b \<Longrightarrow>
   exactly_one (elem_lt a b) (elem_lt b a) (elem_eq a b)"
proof (induction a arbitrary: b)
  case (E_array xs)
  show ?case
  proof (cases "etype b = JSON_ARRAY")
    case True
    then obtain ys where b: "b = E_array ys" by (cases b) simp_all
    have "exactly_one (elem_lt x y) (elem_lt y x) (elem_eq x y)"
      if "x \<in> set xs" "y \<in> set ys" for x y
      using E_array.IH [OF that(1), of y] E_array.prems that
      by (simp add: b list_all_iff)
    then show ?thesis
      unfolding b elem_lt_same elem_eq_same by (rule array_tri)
  next
    case False
    then show ?thesis
      using ordinal_inj [of JSON_ARRAY "etype b"]
      by (auto simp: elem_lt_diff_type elem_eq_diff_type exactly_one_def)
  qed
qed (case_tac [!] b, simp_all add: elem_lt_diff_type elem_eq_diff_type elem_lt_same elem_eq_same
       string_tri double_tri byte_tri sint_tri nat_tri, simp_all add: exactly_one_def)

section \<open>Facts about strings, copies and appending\<close>

lemma strcmp_neg:
  "strcmp s t < 0 \<longleftrightarrow> (cstr s, cstr t) \<in> lexord {(a, b). (of_char a :: nat) < of_char b}"
  by (induction s t rule: strcmp.induct) (auto simp: cstr_def of_char_zero of_char_NUL)

lemma scast_nonneg:
  assumes "0 \<le> sint (n :: 32 word)"
  shows "unat (scast n :: 64 word) = nat (sint n)"
proof -
  have "sint n < 2 ^ 31" using sint_lt [of n] by simp
  also have "(2 :: int) ^ 31 < 2 ^ 64" by simp
  finally have lt: "sint n < 2 ^ 64" .
  have "uint (scast n :: 64 word) = sint n mod 2 ^ LENGTH(64)"
    by (simp only: scast_eq uint_word_of_int)
  also have "\<dots> = sint n mod 2 ^ 64"
    by simp
  also have "\<dots> = sint n"
    using assms lt by (rule mod_pos_pos_trivial)
  finally show ?thesis
    by (simp only: unat_eq_nat_uint)
qed

lemma assign_elements_all:
  "(\<And>x. x \<in> set xs \<Longrightarrow> assign x = Inr x) \<Longrightarrow> assign_elements xs = Inr xs"
  by (induction xs) simp_all

lemma assign_is_value: "is_value v \<Longrightarrow> assign v = Inr v"
proof (induction v)
  case (E_string n s)
  then show ?case
    by (cases "n = 0") (auto simp: construct_string_def strlen_def)
next
  case (E_array xs)
  then have "assign_elements xs = Inr xs"
    by (intro assign_elements_all) (simp add: list_all_iff)
  then show ?case by simp
qed (simp_all add: construct_byte_def)

lemma assign_unset_plain: "\<not> owns_buffer e \<Longrightarrow> assign_unset e = Inr e"
  by (simp add: assign_unset_def)

lemma assign_unset_elements_plain:
  "list_all (\<lambda>x. \<not> owns_buffer x) a \<Longrightarrow> assign_unset_elements a = Inr a"
  by (induction a) (simp_all add: assign_unset_plain)


lemma std_equal_refl: "std_equal xs xs = list_all (\<lambda>x. elem_eq x x) xs"
  by (induction xs) simp_all

lemma elem_eq_refl: "elem_eq v v = self_equal v"
proof (induction v)
  case (E_array xs)
  then show ?case
    by (simp add: elem_eq_same std_equal_refl list_all_iff)
qed (simp_all add: elem_eq_same string_eq_def strcmp_zero double_eq_def byte_eq_def)


lemma push_back_scalar_owned:
  "owns_buffer v \<Longrightarrow> etype v \<noteq> JSON_ARRAY \<Longrightarrow> push_back v e = Inl UnsetTagRead"
  by (auto simp: push_back_def push_back_array_def assign_unset_def and_then_def owns_buffer_def)

lemma push_back_undefined: "is_value e \<Longrightarrow> push_back E_undefined e = Inr (E_array [e])"
  by (simp add: push_back_def push_back_array_def construct_array_def assign_is_value
      and_then_def store_def)

lemma push_back_array:
  "\<not> owns_buffer e \<Longrightarrow> push_back (E_array xs) e = Inr (E_array (xs @ [e]))"
  by (simp add: push_back_def push_back_array_def assign_unset_plain and_then_def)

lemma push_back_array_owned:
  "owns_buffer e \<Longrightarrow> push_back (E_array xs) e = Inl UnsetTagRead"
  by (simp add: push_back_def push_back_array_def assign_unset_def and_then_def)

lemma push_back_a_array:
  "list_all (\<lambda>x. \<not> owns_buffer x) a \<Longrightarrow> push_back_a (E_array xs) a = Inr (E_array (xs @ a))"
  by (simp add: push_back_a_def push_back_array_a_def assign_unset_elements_plain and_then_def)

lemma construct_string_overflow:
  "0 < n \<Longrightarrow> n < strlen s \<Longrightarrow> construct_string s n = Inl BufferOverflow"
  by (simp add: construct_string_def)

section \<open>Facts about the parser\<close>

lemma read_array_loop_unfold:
  "read_array_loop lib v ins =
     Option.bind (read_value lib ins) (\<lambda>r.
       case r of
         Inl e \<Rightarrow> Some (Inl e)
       | Inr (a, ins') \<Rightarrow>
           if to_bool a then
             (case push_back v a of
                Inl e \<Rightarrow> Some (Inl e)
              | Inr v' \<Rightarrow> read_array_loop lib v' ins')
           else Some (Inr (v, ins')))"
  unfolding read_array_loop_def read_value_def
  by (subst parse.simps) simp

lemma read_value_unfold:
  "read_value lib ins =
     (case extract_char (value_c lib) ins of
        (c0, ins1) \<Rightarrow>
          if c0 = CHR '']'' \<or> c0 = CHR ''}'' then Some (Inr (E_undefined, ins1))
          else
            (case (if c0 = CHR '','' then extract_char c0 ins1 else (c0, ins1)) of
               (c, ins2) \<Rightarrow>
                 if c = CHR ''['' then
                   Option.bind (read_array lib ins2) (\<lambda>r.
                     case r of
                       Inl e \<Rightarrow> Some (Inl e)
                     | Inr (a, ins') \<Rightarrow>
                         Some (and_then (assign a) (\<lambda>v. Inr (v, ins'))))
                 else if c = CHR 0x22 \<or> c = CHR 0x27 then
                   (case read_string lib ins2 of
                      None \<Rightarrow> None
                    | Some (s, ins') \<Rightarrow>
                        Some (and_then (construct_string s 0) (\<lambda>v. Inr (v, ins'))))
                 else if c = CHR ''f'' then
                   Some (and_then (ensure_eat CHR ''a'' (eat_c lib, ins2)) (\<lambda>st3.
                         and_then (ensure_eat CHR ''l'' st3) (\<lambda>st4.
                         and_then (ensure_eat CHR ''s'' st4) (\<lambda>st5.
                         and_then (ensure_eat CHR ''e'' st5) (\<lambda>st6.
                         Inr (E_false, snd st6))))))
                 else if c = CHR ''t'' then
                   Some (and_then (ensure_eat CHR ''r'' (eat_c lib, ins2)) (\<lambda>st3.
                         and_then (ensure_eat CHR ''u'' st3) (\<lambda>st4.
                         and_then (ensure_eat CHR ''e'' st4) (\<lambda>st5.
                         Inr (E_true, snd st5)))))
                 else if c = CHR ''n'' then
                   Some (and_then (ensure_eat CHR ''u'' (eat_c lib, ins2)) (\<lambda>st3.
                         and_then (ensure_eat CHR ''l'' st3) (\<lambda>st4.
                         and_then (ensure_eat CHR ''l'' st4) (\<lambda>st5.
                         Inr (E_null, snd st5)))))
                 else
                   (case extract_double lib (putback c ins2) of
                      (None, ins') \<Rightarrow> Some (Inl AssertionFailed)
                    | (Some d, ins') \<Rightarrow> Some (Inr (E_number d, ins')))))"
  unfolding read_array_def read_array_loop_def read_value_def
  by (subst parse.simps) simp

lemma read_members_loop_unfold:
  "read_members_loop lib obj kv ins =
     (case read_pair lib ins kv of
        None \<Rightarrow> None
      | Some (Inl e) \<Rightarrow> Some (Inl e)
      | Some (Inr (found, kv', ins')) \<Rightarrow>
          if found then
            (case map_insert obj kv' of
               Inl e \<Rightarrow> Some (Inl e)
             | Inr obj' \<Rightarrow> read_members_loop lib obj' kv' ins')
          else Some (Inr (obj, ins')))"
  by (rule read_members_loop.simps)

lemmas stream_simps = istream_of_def extract_char_def isspace_def and_then_def ensure_eat_def
  eat_def putback_def extract_double_def

lemmas parse_simps = read_value_unfold read_array_loop_unfold read_array_def stream_simps
  read_string_def read_string_loop.simps to_bool_def

lemma decimal_get_one_comma:
  "decimal_get_double (''1,'' @ r) = Some (0x3FF0000000000000, '','' @ r)"
  by (simp add: decimal_get_double_def isdigit_def digits_value_def double_of_nat_def)

lemma plain_not_space: "plain_char c \<Longrightarrow> \<not> isspace c"
  by (simp add: plain_char_def)

lemma extract_char_cons:
  "\<not> isspace x \<Longrightarrow> extract_char c (istream_of (x # r)) = (x, istream_of r)"
  by (simp add: extract_char_def istream_of_def)

lemma read_string_loop_quote:
  "q = CHR 0x22 \<or> q = CHR 0x27 \<Longrightarrow> read_string_loop q s ins = Some (s, ins)"
  by (subst read_string_loop.simps) auto

lemma read_string_loop_plain:
  "list_all plain_char (a # s) \<Longrightarrow> q = CHR 0x22 \<or> q = CHR 0x27 \<Longrightarrow>
   read_string_loop a acc (istream_of (s @ q # rest)) = Some (acc @ a # s, istream_of rest)"
proof (induction s arbitrary: a acc)
  case Nil
  then have a: "a \<noteq> CHR 0x22 \<and> a \<noteq> CHR 0x27" by (simp add: plain_char_def)
  have q: "\<not> isspace q" using Nil.prems(2) by (auto simp: isspace_def)
  show ?case
    using a Nil.prems(2)
    by (subst read_string_loop.simps)
      (simp add: extract_char_cons [OF q] read_string_loop_quote)
next
  case (Cons b s)
  then have a: "a \<noteq> CHR 0x22 \<and> a \<noteq> CHR 0x27" by (simp add: plain_char_def)
  have b: "\<not> isspace b" using Cons.prems(1) by (simp add: plain_char_def)
  have "read_string_loop b (acc @ [a]) (istream_of (s @ q # rest))
        = Some ((acc @ [a]) @ b # s, istream_of rest)"
    using Cons.prems by (intro Cons.IH) simp_all
  then show ?case
    using a by (subst read_string_loop.simps) (simp add: extract_char_cons [OF b])
qed

lemma read_string_plain:
  assumes "list_all plain_char s" and "q = CHR 0x22 \<or> q = CHR 0x27"
  shows "read_string lib (istream_of (s @ q # rest)) = Some (s, istream_of rest)"
proof (cases s)
  case Nil
  have q: "\<not> isspace q" using assms(2) by (auto simp: isspace_def)
  show ?thesis
    using assms(2) unfolding Nil read_string_def
    by (simp add: extract_char_cons [OF q] read_string_loop_quote)
next
  case (Cons a s')
  have a: "\<not> isspace a" using assms(1) Cons by (simp add: plain_char_def)
  show ?thesis
    using read_string_loop_plain [of a s' q "[]" rest] assms
    unfolding Cons read_string_def by (simp add: extract_char_cons [OF a])
qed

lemma cstr_plain: "list_all plain_char s \<Longrightarrow> cstr s = s"
  by (induction s) (simp_all add: cstr_def plain_char_def)

lemma round_trips_is_value: "round_trips lib v \<Longrightarrow> is_value v"
proof (induction v)
  case (E_string n s)
  then show ?case by (simp add: cstr_plain)
next
  case (E_array xs)
  then show ?case by (simp add: list_all_iff)
qed simp_all

lemma round_trips_to_bool: "round_trips lib v \<Longrightarrow> to_bool v"
  by (cases v) (simp_all add: to_bool_def)

lemma serialize_start:
  "round_trips lib v \<Longrightarrow> \<exists>c r. serialize lib v = c # r \<and> value_start c"
proof (cases v)
  case (E_number d)
  assume "round_trips lib v"
  then show ?thesis
    unfolding E_number
    by (cases "put_double lib d")
      (auto simp: number_round_trips_def number_start_def value_start_def)
qed (simp_all add: value_start_def isspace_def)

lemma read_value_comma:
  assumes "value_start c"
  shows "read_value lib (istream_of (CHR '','' # c # r)) = read_value lib (istream_of (c # r))"
proof -
  have c: "\<not> isspace c" "c \<noteq> CHR '']''" "c \<noteq> CHR ''}''" "c \<noteq> CHR '',''"
    using assms by (simp_all add: value_start_def)
  have s: "\<not> isspace CHR '',''" by (simp add: isspace_def)
  show ?thesis
    by (simp add: read_value_unfold [of lib "istream_of (CHR '','' # c # r)"]
        read_value_unfold [of lib "istream_of (c # r)"]
        extract_char_cons [OF s] extract_char_cons [OF c(1)] c)
qed

lemma stop_ok_not_space: "stop_ok (c # r) \<Longrightarrow> \<not> isspace c"
  by (auto simp: stop_ok_def isspace_def)

lemma read_value_close:
  "read_value lib (istream_of (CHR '']'' # rest)) = Some (Inr (E_undefined, istream_of rest))"
  by (simp add: read_value_unfold extract_char_def istream_of_def isspace_def)

lemma stop_ok_elements: "stop_ok (serialize_elements lib (Suc i) ys @ CHR '']'' # rest)"
  by (cases ys) (simp_all add: stop_ok_def)

lemma read_array_loop_elements:
  assumes "\<And>x r. x \<in> set ys \<Longrightarrow> stop_ok r \<Longrightarrow>
      read_value lib (istream_of (serialize lib x @ r)) = Some (Inr (x, istream_of r))"
    and "list_all (round_trips lib) ys" and "list_all (\<lambda>x. \<not> owns_buffer x) ys"
  shows "read_array_loop lib (E_array zs)
      (istream_of (serialize_elements lib (Suc i) ys @ CHR '']'' # rest))
    = Some (Inr (E_array (zs @ ys), istream_of rest))"
  using assms
proof (induction ys arbitrary: zs i)
  case Nil
  show ?case
    by (subst read_array_loop_unfold) (simp add: read_value_close to_bool_def)
next
  case (Cons y ys)
  define r where "r = serialize_elements lib (Suc (Suc i)) ys @ CHR '']'' # rest"
  have r: "stop_ok r" unfolding r_def by (rule stop_ok_elements)
  from Cons.prems(2) have y: "round_trips lib y" by simp
  from Cons.prems(3) have p: "\<not> owns_buffer y" by simp
  from serialize_start [OF y] obtain c cs where
    s: "serialize lib y = c # cs" and c: "value_start c" by blast
  have "read_value lib (istream_of (CHR '','' # serialize lib y @ r))
        = read_value lib (istream_of (serialize lib y @ r))"
    unfolding s using read_value_comma [OF c] by simp
  also have "\<dots> = Some (Inr (y, istream_of r))"
    using Cons.prems(1) [of y r] r by simp
  finally have v: "read_value lib (istream_of (CHR '','' # serialize lib y @ r))
        = Some (Inr (y, istream_of r))" .
  have l: "read_array_loop lib (E_array (zs @ [y])) (istream_of r)
        = Some (Inr (E_array ((zs @ [y]) @ ys), istream_of rest))"
    unfolding r_def using Cons.prems by (intro Cons.IH) simp_all
  show ?case
    by (subst read_array_loop_unfold)
      (simp add: v [unfolded r_def] l [unfolded r_def] round_trips_to_bool [OF y]
        push_back_array [OF p])
qed

lemma putback_istream: "putback c (istream_of r) = istream_of (c # r)"
  by (simp add: putback_def istream_of_def)

lemma extract_double_istream:
  "\<not> isspace c \<Longrightarrow> get_double lib (c # r) = Some (d, rest) \<Longrightarrow>
   extract_double lib (istream_of (c # r)) = (Some d, istream_of rest)"
  by (simp add: extract_double_def istream_of_def)

lemma read_value_round_trip:
  "round_trips lib v \<Longrightarrow> stop_ok rest \<Longrightarrow>
   read_value lib (istream_of (serialize lib v @ rest)) = Some (Inr (v, istream_of rest))"
proof (induction v arbitrary: rest)
  case (E_string n s)
  then have s: "list_all plain_char s" and n: "n = length s" by simp_all
  have q: "\<not> isspace (CHR 0x22)" by (simp add: isspace_def)
  show ?case
    using read_string_plain [OF s, of "CHR 0x22" lib rest]
    by (simp add: read_value_unfold cstr_plain [OF s] extract_char_cons [OF q]
        construct_string_def strlen_def n and_then_def)
next
  case (E_number d)
  then obtain c cs where p: "put_double lib d = c # cs" and c: "number_start c"
    and g: "get_double lib (c # cs @ rest) = Some (d, rest)"
    by (cases "put_double lib d") (auto simp: number_round_trips_def)
  have sp: "\<not> isspace c" using c by (simp add: number_start_def)
  show ?case
    using c
    by (simp add: read_value_unfold p extract_char_cons [OF sp] number_start_def
        putback_istream extract_double_istream [OF sp g])
next
  case (E_array xs)
  from E_array.prems(1) obtain x xs' where xs: "xs = x # xs'"
    and x: "round_trips lib x" and xs': "list_all (round_trips lib) xs'"
    and pl: "list_all (\<lambda>x. \<not> owns_buffer x) xs'"
    by (cases xs) simp_all
  define r where "r = serialize_elements lib (Suc 0) xs' @ CHR '']'' # rest"
  have r: "stop_ok r" unfolding r_def by (rule stop_ok_elements)
  have b: "\<not> isspace CHR ''[''" by (simp add: isspace_def)
  have v: "read_value lib (istream_of (serialize lib x @ r)) = Some (Inr (x, istream_of r))"
    using E_array.IH [of x r] x r xs by simp
  have l: "read_array_loop lib (E_array [x]) (istream_of r)
      = Some (Inr (E_array ([x] @ xs'), istream_of rest))"
    unfolding r_def
  proof (rule read_array_loop_elements [OF _ xs' pl])
    fix y q assume "y \<in> set xs'" "stop_ok q"
    then show "read_value lib (istream_of (serialize lib y @ q)) = Some (Inr (y, istream_of q))"
      using E_array.IH [of y q] xs' xs by (simp add: list_all_iff)
  qed
  have iv: "is_value x" "list_all is_value xs'"
    using x xs' round_trips_is_value [of lib] by (simp_all add: list_all_iff)
  have a: "read_array lib (istream_of (serialize lib x @ r)) = Some (Inr (E_array xs, istream_of rest))"
    unfolding read_array_def
    by (subst read_array_loop_unfold)
      (simp add: v l xs round_trips_to_bool [OF x] push_back_undefined [OF iv(1)])
  have av: "assign (E_array xs) = Inr (E_array xs)"
    using iv by (intro assign_is_value) (simp add: xs)
  show ?case
    using a av
    by (simp add: read_value_unfold [of lib "istream_of (CHR ''['' # _)"] xs r_def
        extract_char_cons [OF b] and_then_def)
qed (simp_all add: read_value_unfold stream_simps)

text \<open>The instance of the environment reads and prints the number 1.\<close>

lemma nat_of_double_one: "nat_of_double 0x3FF0000000000000 = Some 1"
  by (simp add: nat_of_double_def drop_bit_eq_div take_bit_eq_mod)

lemma decimal_put_one: "decimal_put_double 0x3FF0000000000000 = ''1''"
  by (simp add: decimal_put_double_def nat_of_double_one)

lemma double_of_one: "double_of_nat (Suc 0) = 0x3FF0000000000000"
  by (simp add: double_of_nat_def)

lemma decimal_get_one:
  "stop_ok rest \<Longrightarrow> decimal_get_double (CHR ''1'' # rest) = Some (0x3FF0000000000000, rest)"
proof (cases rest)
  case Nil
  then show ?thesis
    by (simp add: decimal_get_double_def isdigit_def digits_value_def double_of_one)
next
  case (Cons c cs)
  assume "stop_ok rest"
  then have c: "c = CHR '','' \<or> c = CHR '']''" by (simp add: Cons stop_ok_def)
  then have "\<not> isdigit c" and "c \<notin> set ''.eExXpP''" by (auto simp: isdigit_def)
  then show ?thesis
    unfolding Cons
    by (simp add: decimal_get_double_def isdigit_def digits_value_def double_of_one)
qed

lemma decimal_one_round_trips: "number_round_trips decimal_lib 0x3FF0000000000000"
  by (simp add: number_round_trips_def decimal_lib_def decimal_put_one decimal_get_one
      number_start_def isspace_def)

lemma sample_value_round_trips: "round_trips decimal_lib sample_value"
  by (simp add: sample_value_def decimal_one_round_trips plain_char_def isspace_def NUL_def
      owns_buffer_def)

lemma sample_value_text:
  "serialize decimal_lib sample_value
     = ''[['' @ [CHR 0x22] @ ''ab'' @ [CHR 0x22] @ '',true],1,false]''"
  by (simp add: sample_value_def decimal_lib_def decimal_put_one cstr_def NUL_def)

text \<open>What the parser does not read back, and where it stops.\<close>

lemma empty_array_parse:
  "extract_value lib (istream_of (serialize lib (E_array [])))
     = Some (Inr (E_undefined, istream_of []))"
  by (simp add: extract_value_def parse_simps)

lemma string_with_space_parse:
  "extract_value lib (istream_of (serialize lib (E_string 3 ''a b'')))
     = Some (Inr (E_string 2 ''ab'', istream_of []))"
  by (simp add: extract_value_def parse_simps cstr_def NUL_def construct_string_def strlen_def)

lemma two_strings_parse:
  "read_value lib (istream_of two_strings_text) = Some (Inl UnsetTagRead)"
  by (simp add: two_strings_text_def parse_simps cstr_def NUL_def construct_string_def
      strlen_def push_back_def push_back_array_def construct_array_def store_def
      assign_unset_def owns_buffer_def)

lemma read_value_at_end:
  "number_start (value_c lib) \<Longrightarrow> read_value lib (istream_of []) = Some (Inl AssertionFailed)"
  by (simp add: read_value_unfold number_start_def extract_char_def istream_of_def
      putback_def extract_double_def)

lemma decimal_get_one_quote:
  "decimal_get_double (CHR ''1'' # CHR 0x22 # r) = Some (0x3FF0000000000000, CHR 0x22 # r)"
  by (simp add: decimal_get_double_def isdigit_def digits_value_def double_of_one)

lemma juxtaposed_members:
  "\<exists>obj. read_object decimal_lib (istream_of juxtaposed_text) = Some (Inr (obj, istream_of []))
     \<and> dom obj = {''a'', ''b''}
     \<and> obj ''a'' = Some (E_number 0x3FF0000000000000)
     \<and> obj ''b'' = Some E_true"
  by (simp add: juxtaposed_text_def read_object_def read_members_def
      read_members_loop_unfold read_pair_def read_key_def parse_simps decimal_lib_def
      decimal_get_one_quote map_insert_def assign_unset_def owns_buffer_def dom_def) auto

text \<open>A string that is not closed: the loop of \<^verbatim>\<open>read_string\<close> does not return.\<close>

lemma extract_char_failed: "failbit ins \<Longrightarrow> extract_char c ins = (c, ins)"
  by (simp add: extract_char_def)

lemma extract_char_end: "extract_char c (istream_of []) = (c, \<lparr>buf = [], failbit = True\<rparr>)"
  by (simp add: extract_char_def istream_of_def)

lemma read_string_loop_returns:
  assumes "read_string_loop c s ins = Some y"
  shows "\<not> (failbit ins \<and> c \<noteq> CHR 0x22 \<and> c \<noteq> CHR 0x27)"
proof (rule read_string_loop.raw_induct
    [where P = "\<lambda>c s ins y. \<not> (failbit ins \<and> c \<noteq> CHR 0x22 \<and> c \<noteq> CHR 0x27)", OF _ assms])
  fix f :: "char \<Rightarrow> string \<Rightarrow> istream \<Rightarrow> (string \<times> istream) option"
  fix c s ins y
  assume ih: "\<And>c s ins y. f c s ins = Some y \<Longrightarrow>
      \<not> (failbit ins \<and> c \<noteq> CHR 0x22 \<and> c \<noteq> CHR 0x27)"
  assume eq: "(if c \<noteq> CHR 0x22 \<and> c \<noteq> CHR 0x27 then
        (case extract_char c ins of (c', ins') \<Rightarrow> f c' (s @ [c]) ins')
      else Some (s, ins)) = Some y"
  show "\<not> (failbit ins \<and> c \<noteq> CHR 0x22 \<and> c \<noteq> CHR 0x27)"
  proof
    assume a: "failbit ins \<and> c \<noteq> CHR 0x22 \<and> c \<noteq> CHR 0x27"
    with eq have "f c (s @ [c]) ins = Some y"
      by (simp add: extract_char_failed)
    from ih [OF this] a show False by simp
  qed
qed

lemma read_string_loop_diverges:
  "failbit ins \<Longrightarrow> c \<noteq> CHR 0x22 \<Longrightarrow> c \<noteq> CHR 0x27 \<Longrightarrow> read_string_loop c s ins = None"
  using read_string_loop_returns [of c s ins] by (cases "read_string_loop c s ins") auto

lemma unterminated_string_diverges:
  "read_value lib (istream_of (CHR 0x22 # ''ab'')) = None"
proof -
  have "read_string_loop CHR ''b'' ''a'' (istream_of []) = None"
    by (subst read_string_loop.simps)
      (simp add: extract_char_end read_string_loop_diverges)
  then show ?thesis
    by (simp add: read_value_unfold extract_char_def istream_of_def isspace_def read_string_def
        read_string_loop.simps [of "CHR ''a''"])
qed

section \<open>The claims about comparison, construction and appending\<close>

text \<open>
  Claim C3, as amended. For all elements \<open>a\<close> and \<open>b\<close> with equal tags that hold no Null,
  no Undefined and no NaN at any depth, and whose strings have the length of their
  characters as size field, exactly one of \<open>a < b\<close>, \<open>b < a\<close>, \<open>a == b\<close> holds; for all
  elements \<open>c\<close> and \<open>d\<close> with different tags, equality is false and the order is the order
  of the tag ordinals.
\<close>

theorem C3_ordering_totality:
  "(etype a = etype b \<and> self_equal a \<and> sized_strings a \<and> self_equal b \<and> sized_strings b
      \<longrightarrow> exactly_one (elem_lt a b) (elem_lt b a) (elem_eq a b))
   \<and> (etype c \<noteq> etype d
      \<longrightarrow> \<not> elem_eq c d \<and> elem_lt c d = (ordinal (etype c) < ordinal (etype d)))"
  by (simp add: elem_tri elem_eq_diff_type elem_lt_diff_type)

text \<open>
  A witness: two arrays of strings and booleans, and the two booleans (False has the
  higher ordinal, so it is not less than True).
\<close>

theorem C3_ordering_totality_witness:
  "etype (E_array [E_string 1 ''a'', E_true]) = etype (E_array [E_string 1 ''b''])
   \<and> elem_lt (E_array [E_string 1 ''a'', E_true]) (E_array [E_string 1 ''b''])
   \<and> \<not> elem_lt (E_array [E_string 1 ''b'']) (E_array [E_string 1 ''a'', E_true])
   \<and> \<not> elem_eq (E_array [E_string 1 ''a'', E_true]) (E_array [E_string 1 ''b''])
   \<and> etype E_false \<noteq> etype E_true \<and> \<not> elem_eq E_false E_true \<and> \<not> elem_lt E_false E_true"
  using C3_ordering_totality [of "E_array [E_string 1 ''a'', E_true]" "E_array [E_string 1 ''b'']"
      E_false E_true]
  by (simp add: exactly_one_def strlen_def cstr_def NUL_def elem_lt_same elem_eq_same
      string_lt_def string_eq_def elem_lt_diff_type)

text \<open>
  Claim C3 as the specification states it fails: the array holding one Null has tag
  Array, and compared with itself it is neither less nor equal, since its elements are
  compared by the element equality, under which Null is not equal to Null.
\<close>

theorem C3_counterexample:
  "etype (E_array [E_null]) = etype (E_array [E_null])
   \<and> etype (E_array [E_null]) \<noteq> JSON_NULL \<and> etype (E_array [E_null]) \<noteq> JSON_UNDEFINED
   \<and> \<not> exactly_one (elem_lt (E_array [E_null]) (E_array [E_null]))
         (elem_lt (E_array [E_null]) (E_array [E_null]))
         (elem_eq (E_array [E_null]) (E_array [E_null]))"
  by (simp add: elem_eq_same elem_lt_same exactly_one_def)

text \<open>
  Claim C4. For two elements with different tags, equality is false and \<open>a < b\<close> holds
  exactly when the ordinal of the tag of \<open>a\<close> is lower than that of \<open>b\<close>, the ordinals
  being those of the declared order String, Number, Object, Array, True, False, Null,
  Byte, Int32, Int64, Date, Undefined.
\<close>

theorem C4_different_tags:
  "etype a \<noteq> etype b \<Longrightarrow>
     \<not> elem_eq a b \<and> elem_lt a b = (ordinal (etype a) < ordinal (etype b))
     \<and> map ordinal [JSON_STRING, JSON_NUMBER, JSON_OBJECT, JSON_ARRAY, JSON_TRUE, JSON_FALSE,
          JSON_NULL, JSON_BYTE, JSON_INT32, JSON_INT64, JSON_DATE, JSON_UNDEFINED] = [0 ..< 12]"
  by (simp add: elem_eq_diff_type elem_lt_diff_type upt_rec)

theorem C4_different_tags_witness:
  "etype (E_number 0) \<noteq> etype E_null
   \<and> \<not> elem_eq (E_number 0) E_null \<and> elem_lt (E_number 0) E_null
   \<and> \<not> elem_lt E_null (E_number 0)"
  using C4_different_tags [of "E_number 0" E_null] C4_different_tags [of E_null "E_number 0"]
  by simp




text \<open>
  Claim C6, as amended. For every Array value, appending one element whose tag is none
  of String, Array and Byte makes the length the prior length plus one, appending an
  array of such elements makes it the prior length plus the length of that array, and
  every element that was there is still there at its index, tag and payload; by
  \<^verbatim>\<open>operator==\<close> it is equal to the element it was exactly when it holds no Null, no
  Undefined and no NaN at any depth.
\<close>

theorem C6_append_monotonicity:
  assumes "etype v = JSON_ARRAY"
    and "\<not> owns_buffer e" and "list_all (\<lambda>x. \<not> owns_buffer x) a"
  shows "\<exists>r ra. push_back v e = Inr r \<and> push_back_a v a = Inr ra
    \<and> array_size r = map_option (\<lambda>n. n + 1) (array_size v)
    \<and> array_size ra = map_option (\<lambda>n. n + length a) (array_size v)
    \<and> (\<forall>i x. index v i = Some x \<longrightarrow>
          index r i = Some x \<and> index ra i = Some x
          \<and> index_eq r i x = self_equal x
          \<and> index_eq ra i x = self_equal x)"
proof -
  from assms(1) obtain xs where v: "v = E_array xs" by (cases v) simp_all
  have r: "push_back v e = Inr (E_array (xs @ [e]))"
    unfolding v using assms(2) by (rule push_back_array)
  have ra: "push_back_a v a = Inr (E_array (xs @ a))"
    unfolding v using assms(3) by (rule push_back_a_array)
  show ?thesis
    unfolding r ra
    by (auto simp: v array_size_def index_def index_eq_def nth_append elem_eq_refl
        split: if_splits)
qed

text \<open>A witness: appending to the array of True and Null.\<close>

theorem C6_append_monotonicity_witness:
  "etype (E_array [E_true, E_null]) = JSON_ARRAY
   \<and> \<not> owns_buffer E_false
   \<and> push_back (E_array [E_true, E_null]) E_false = Inr (E_array [E_true, E_null, E_false])
   \<and> push_back_a (E_array [E_true, E_null]) [E_false, E_false]
       = Inr (E_array [E_true, E_null, E_false, E_false])
   \<and> array_size (E_array [E_true, E_null, E_false]) = Some 3
   \<and> array_size (E_array [E_true, E_null, E_false, E_false]) = Some 4
   \<and> index (E_array [E_true, E_null]) 0 = Some E_true
   \<and> index (E_array [E_true, E_null, E_false]) 0 = Some E_true
   \<and> index_eq (E_array [E_true, E_null, E_false]) 0 E_true
   \<and> index_eq (E_array [E_true, E_null, E_false, E_false]) 0 E_true"
proof -
  have p: "\<not> owns_buffer E_false" "list_all (\<lambda>x. \<not> owns_buffer x) [E_false, E_false]"
    by (simp_all add: owns_buffer_def)
  have r: "push_back (E_array [E_true, E_null]) E_false = Inr (E_array [E_true, E_null, E_false])"
    using push_back_array [OF p(1), of "[E_true, E_null]"] by simp
  have ra: "push_back_a (E_array [E_true, E_null]) [E_false, E_false]
      = Inr (E_array [E_true, E_null, E_false, E_false])"
    using push_back_a_array [OF p(2), of "[E_true, E_null]"] by simp
  from C6_append_monotonicity [of "E_array [E_true, E_null]" E_false "[E_false, E_false]"] p r ra
  show ?thesis by (simp add: array_size_def index_def index_eq_def elem_eq_same)
qed

text \<open>
  Claim C6 with the equality of the specification fails for an array that holds a Null:
  after the append the Null is still at index 0, and it is not equal to the Null that
  was there.
\<close>

theorem C6_counterexample:
  "etype (E_array [E_null]) = JSON_ARRAY
   \<and> index (E_array [E_null]) 0 = Some E_null
   \<and> push_back (E_array [E_null]) E_true = Inr (E_array [E_null, E_true])
   \<and> \<not> index_eq (E_array [E_null, E_true]) 0 E_null"
  by (simp add: push_back_array owns_buffer_def index_eq_def index_def elem_eq_same)

text \<open>
  Claim C7. For every value \<open>n\<close> with tag Null, \<open>n == n\<close> is false, for the comparison of
  elements and for \<^verbatim>\<open>value::operator==\<close>: Null is never equal to Null.
\<close>

theorem C7_null_irreflexive:
  "etype n = JSON_NULL \<Longrightarrow> \<not> elem_eq n n \<and> \<not> value_eq n n"
  by (cases n) (simp_all add: value_eq_def elem_eq_same)

theorem C7_null_irreflexive_witness:
  "etype E_null = JSON_NULL \<and> \<not> elem_eq E_null E_null \<and> \<not> value_eq E_null E_null"
  using C7_null_irreflexive [of E_null] by simp

text \<open>
  Claim C8, as amended. For two String elements whose size fields are the numbers of
  their characters, equality holds exactly when the strings have equal length and the
  same character at every position, and one is less than the other exactly when its
  characters come first in the lexicographic order of the byte values; the overloads
  that take the second string as a payload agree.
\<close>

theorem C8_string_comparison:
  assumes "sized_strings (E_string n s)" and "sized_strings (E_string m t)"
  shows "elem_eq (E_string n s) (E_string m t)
       = (n = m \<and> (\<forall>i < n. cstr s ! i = cstr t ! i))
   \<and> elem_lt (E_string n s) (E_string m t)
       = ((cstr s, cstr t) \<in> lexord {(a, b). (of_char a :: nat) < of_char b})
   \<and> elem_eq_string (E_string n s) m t = elem_eq (E_string n s) (E_string m t)
   \<and> elem_lt_string (E_string n s) m t = elem_lt (E_string n s) (E_string m t)"
  using assms strcmp_zero [of s t] list_eq_iff_nth_eq [of "cstr s" "cstr t"]
  by (auto simp add: elem_eq_same elem_lt_same string_eq_def string_lt_def strcmp_neg
      elem_eq_string_def elem_lt_string_def strlen_def)

text \<open>
  A witness: \<open>ab\<close> against \<open>abc\<close>, against itself and against \<open>aZ\<close> (\<open>Z\<close> is byte 90, \<open>b\<close>
  is byte 98).
\<close>

theorem C8_string_comparison_witness:
  "sized_strings (E_string 2 ''ab'') \<and> sized_strings (E_string 3 ''abc'')
   \<and> sized_strings (E_string 2 ''aZ'')
   \<and> \<not> elem_eq (E_string 2 ''ab'') (E_string 3 ''abc'')
   \<and> elem_eq (E_string 2 ''ab'') (E_string 2 ''ab'')
   \<and> elem_lt (E_string 2 ''ab'') (E_string 3 ''abc'')
   \<and> elem_lt (E_string 2 ''aZ'') (E_string 2 ''ab'')
   \<and> \<not> elem_lt (E_string 2 ''ab'') (E_string 2 ''aZ'')"
proof -
  have z: "sized_strings (E_string 2 ''ab'')" "sized_strings (E_string 3 ''abc'')"
    "sized_strings (E_string 2 ''aZ'')"
    by (simp_all add: strlen_def cstr_def NUL_def)
  from C8_string_comparison [OF z(1) z(2)] C8_string_comparison [OF z(1) z(1)]
    C8_string_comparison [OF z(3) z(1)] C8_string_comparison [OF z(1) z(3)] z
  show ?thesis
    by (simp add: cstr_def NUL_def less_Suc_eq numeral_2_eq_2 all_conj_distrib)
qed

text \<open>
  Claim C8 as the specification states it fails where the size field is not the number
  of characters. The values built from the characters \<open>ab\<close> with size 0 and with size 5
  hold the same two characters and are not equal; the strings of size 3 that hold \<open>a\<close>,
  NUL, \<open>b\<close> and \<open>a\<close>, NUL, \<open>c\<close> differ at position 2 and are equal.
\<close>

theorem C8_counterexample:
  "construct_string ''ab'' 0 = Inr (E_string 2 ''ab'')
   \<and> construct_string ''ab'' 5 = Inr (E_string 5 ''ab'')
   \<and> \<not> elem_eq (E_string 2 ''ab'') (E_string 5 ''ab'')
   \<and> \<not> elem_lt (E_string 2 ''ab'') (E_string 5 ''ab'')
   \<and> \<not> elem_lt (E_string 5 ''ab'') (E_string 2 ''ab'')
   \<and> [CHR ''a'', NUL, CHR ''b''] ! 2 \<noteq> [CHR ''a'', NUL, CHR ''c''] ! 2
   \<and> elem_eq (E_string 3 [CHR ''a'', NUL, CHR ''b'']) (E_string 3 [CHR ''a'', NUL, CHR ''c''])"
  by (simp add: construct_string_def strlen_def cstr_def NUL_def elem_eq_same elem_lt_same
      string_eq_def string_lt_def)

text \<open>
  Claim C10. For every non-negative \<^verbatim>\<open>int\<close> \<open>n\<close>, \<^verbatim>\<open>value(n)\<close> is an Array of length \<open>n\<close>
  whose every element has tag Undefined.
\<close>

theorem C10_value_int:
  assumes "0 \<le> sint n"
  shows "etype (value_int n) = JSON_ARRAY
    \<and> array_size (value_int n) = Some (nat (sint n))
    \<and> (\<forall>i < nat (sint n). map_option etype (index (value_int n) i) = Some JSON_UNDEFINED)"
  using scast_nonneg [OF assms]
  by (simp add: value_int_def construct_array_def array_size_def index_def)

theorem C10_value_int_witness:
  "0 \<le> sint (3 :: 32 word) \<and> etype (value_int 3) = JSON_ARRAY
    \<and> array_size (value_int 3) = Some 3
    \<and> map_option etype (index (value_int 3) 0) = Some JSON_UNDEFINED
    \<and> map_option etype (index (value_int 3) 1) = Some JSON_UNDEFINED
    \<and> map_option etype (index (value_int 3) 2) = Some JSON_UNDEFINED"
  using C10_value_int [of 3] by simp

section \<open>The claims about the parser and the round trip\<close>

text \<open>
  Claim C1, as amended. For every value built only from strings without quote, white
  space and NUL whose size field is their length, numbers that the stream library
  prints and reads back, True, False, Null, and arrays that are not empty and hold no
  string and no array after their first element, parsing the text written for the
  value yields that value, tag and payload, and consumes the text; the parsed value is
  equal to the written one by \<^verbatim>\<open>operator==\<close> exactly when it holds no Null and no NaN at
  any depth.
\<close>

theorem C1_round_trip:
  assumes "round_trips lib v"
  shows "extract_value lib (istream_of (serialize lib v)) = Some (Inr (v, istream_of []))
    \<and> parses_equal lib v = self_equal v"
proof -
  have "read_value lib (istream_of (serialize lib v @ [])) = Some (Inr (v, istream_of []))"
    using assms by (rule read_value_round_trip) (simp add: stop_ok_def)
  then have "extract_value lib (istream_of (serialize lib v)) = Some (Inr (v, istream_of []))"
    using round_trips_is_value [OF assms]
    by (simp add: extract_value_def assign_is_value and_then_def)
  then show ?thesis
    by (simp add: parses_equal_def elem_eq_refl)
qed

text \<open>A witness: the array \<^verbatim>\<open>[["ab",true],1,false]\<close>.\<close>

theorem C1_round_trip_witness:
  "round_trips decimal_lib sample_value
   \<and> extract_value decimal_lib (istream_of (serialize decimal_lib sample_value))
       = Some (Inr (sample_value, istream_of []))
   \<and> parses_equal decimal_lib sample_value"
  using C1_round_trip [OF sample_value_round_trips] sample_value_round_trips
  by (simp add: sample_value_def isnan_def)

text \<open>
  Claim C1 as the specification states it fails for Null: the text \<^verbatim>\<open>null\<close> is parsed to
  Null, which is not equal to Null.
\<close>

theorem C1_counterexample:
  "serialize decimal_lib E_null = ''null''
   \<and> extract_value decimal_lib (istream_of (serialize decimal_lib E_null))
       = Some (Inr (E_null, istream_of []))
   \<and> \<not> parses_equal decimal_lib E_null"
  by (simp add: parses_equal_def extract_value_def parse_simps elem_eq_same)

text \<open>
  Claim C2 fails on the code. Parsing \<^verbatim>\<open>{"a":1,"b":[true,false]}\<close> as an object does not
  yield an object: whenever the stream library reads the number 1 and stops before the
  comma, \<^verbatim>\<open>read_pair\<close> reads the comma where it asserts a quote, and the assertion
  fails.
\<close>

theorem C2_object_members:
  assumes "get_double lib (CHR ''1'' # object_text_rest) = Some (d, object_text_rest)"
  shows "read_object lib (istream_of object_text) = Some (Inl AssertionFailed)"
  using assms
  by (simp add: object_text_def object_text_rest_def read_object_def read_members_def
      read_members_loop_unfold read_pair_def read_key_def parse_simps map_insert_def
      assign_unset_def owns_buffer_def)

theorem C2_object_members_witness:
  "get_double decimal_lib (CHR ''1'' # object_text_rest)
     = Some (0x3FF0000000000000, object_text_rest)
   \<and> read_object decimal_lib (istream_of object_text) = Some (Inl AssertionFailed)"
proof -
  have h: "get_double decimal_lib (CHR ''1'' # object_text_rest)
      = Some (0x3FF0000000000000, object_text_rest)"
    using decimal_get_one_comma [of "tl object_text_rest"]
    by (simp add: decimal_lib_def object_text_rest_def)
  from h C2_object_members [OF h] show ?thesis by simp
qed

text \<open>
  Claim C9. Parsing the text \<^verbatim>\<open>tru\<close> ends in a failed assertion and returns no value,
  through \<^verbatim>\<open>read_value\<close> and through \<^verbatim>\<open>operator>>\<close>, whatever the stream library does and
  whatever the uninitialised locals hold: \<^verbatim>\<open>t\<close>, \<^verbatim>\<open>r\<close> and \<^verbatim>\<open>u\<close> are matched, the extraction
  for \<^verbatim>\<open>e\<close> is at the end of the input and stores nothing, and \<^verbatim>\<open>eat\<close> compares \<^verbatim>\<open>e\<close> with
  the \<^verbatim>\<open>u\<close> that its local still holds.
\<close>

theorem C9_truncated_true:
  "read_value lib (istream_of ''tru'') = Some (Inl AssertionFailed)
   \<and> extract_value lib (istream_of ''tru'') = Some (Inl AssertionFailed)"
  by (simp add: parse_simps extract_value_def)

end
